theory Spec2Isabelle
  imports Complex_Main
begin

section \<open>Floating-point cells\<close>

text \<open>
  The cells of a pandas frame are 64-bit floats. A finite float is the real number it
  stands for, and the three special values are kept: \<open>NaN\<close> marks a missing indicator
  value and is what \<open>dropna\<close> removes, and a division by a zero price gives an infinity
  or \<open>NaN\<close> instead of raising (numpy scalars). Comparisons are exact. Each arithmetic
  operation returns the exact result rounded to the nearest float, ties to even, and an
  infinity on overflow. The sign of a zero is not represented. A cell may hold any real
  number; the cells of a frame read from floats are floats.
\<close>

datatype fval = NaN | NegInf | Fin real | PosInf

definition signed_inf :: "bool \<Rightarrow> fval" where
  "signed_inf positive = (if positive then PosInf else NegInf)"

text \<open>The nearest integer, a tie going to the even one.\<close>

definition round_half_even :: "real \<Rightarrow> int" where
  "round_half_even x =
     (let f = \<lfloor>x\<rfloor>; d = x - of_int f
      in if d < 1 / 2 then f
         else if 1 / 2 < d then f + 1
         else if even f then f else f + 1)"

text \<open>
  The binary exponent of a magnitude below \<open>2 ^ 1024\<close>: the largest \<open>e\<close> from \<open>- 1022\<close>
  on with \<open>2 ^ e \<le> a\<close>, found by bisection, and \<open>- 1022\<close> for the subnormal magnitudes.
\<close>

definition exponent :: "real \<Rightarrow> int" where
  "exponent a =
     foldl (\<lambda>e s. if 2 powi (e + s) \<le> a then e + s else e) (- 1022)
       [1024, 512, 256, 128, 64, 32, 16, 8, 4, 2, 1]"

text \<open>
  Rounding a real number to binary64: a multiple of the spacing \<open>2 ^ (e - 52)\<close> of the
  floats of its exponent \<open>e\<close>, with 53 significant bits.
\<close>

definition round_f64 :: "real \<Rightarrow> fval" where
  "round_f64 x =
     (if 2 ^ 1024 \<le> \<bar>x\<bar> then signed_inf (0 < x)
      else
        (let q = 2 powi (exponent \<bar>x\<bar> - 52);
             y = of_int (round_half_even (x / q)) * q
         in if 2 ^ 1024 \<le> \<bar>y\<bar> then signed_inf (0 < x) else Fin y))"

text \<open>Comparisons: every comparison with \<open>NaN\<close> is false.\<close>

fun flt :: "fval \<Rightarrow> fval \<Rightarrow> bool" where
  "flt NaN _ = False"
| "flt _ NaN = False"
| "flt (Fin a) (Fin b) = (a < b)"
| "flt NegInf NegInf = False"
| "flt NegInf _ = True"
| "flt PosInf _ = False"
| "flt (Fin a) PosInf = True"
| "flt (Fin a) NegInf = False"

fun fle :: "fval \<Rightarrow> fval \<Rightarrow> bool" where
  "fle NaN _ = False"
| "fle _ NaN = False"
| "fle (Fin a) (Fin b) = (a \<le> b)"
| "fle NegInf _ = True"
| "fle PosInf PosInf = True"
| "fle PosInf _ = False"
| "fle (Fin a) PosInf = True"
| "fle (Fin a) NegInf = False"

definition fgt :: "fval \<Rightarrow> fval \<Rightarrow> bool" where
  "fgt a b = flt b a"

fun fneg :: "fval \<Rightarrow> fval" where
  "fneg NaN = NaN"
| "fneg NegInf = PosInf"
| "fneg PosInf = NegInf"
| "fneg (Fin a) = Fin (- a)"

fun fadd :: "fval \<Rightarrow> fval \<Rightarrow> fval" where
  "fadd NaN _ = NaN"
| "fadd _ NaN = NaN"
| "fadd (Fin a) (Fin b) = round_f64 (a + b)"
| "fadd PosInf NegInf = NaN"
| "fadd NegInf PosInf = NaN"
| "fadd PosInf _ = PosInf"
| "fadd NegInf _ = NegInf"
| "fadd (Fin a) b = b"

definition fsub :: "fval \<Rightarrow> fval \<Rightarrow> fval" where
  "fsub a b = fadd a (fneg b)"

fun fmul :: "fval \<Rightarrow> fval \<Rightarrow> fval" where
  "fmul NaN _ = NaN"
| "fmul _ NaN = NaN"
| "fmul (Fin a) (Fin b) = round_f64 (a * b)"
| "fmul PosInf PosInf = PosInf"
| "fmul PosInf NegInf = NegInf"
| "fmul NegInf PosInf = NegInf"
| "fmul NegInf NegInf = PosInf"
| "fmul PosInf (Fin b) = (if b = 0 then NaN else signed_inf (0 < b))"
| "fmul NegInf (Fin b) = (if b = 0 then NaN else signed_inf (b < 0))"
| "fmul (Fin a) PosInf = (if a = 0 then NaN else signed_inf (0 < a))"
| "fmul (Fin a) NegInf = (if a = 0 then NaN else signed_inf (a < 0))"

fun fdiv :: "fval \<Rightarrow> fval \<Rightarrow> fval" where
  "fdiv NaN _ = NaN"
| "fdiv _ NaN = NaN"
| "fdiv (Fin a) (Fin b) =
     (if b \<noteq> 0 then round_f64 (a / b)
      else if a = 0 then NaN
      else signed_inf (0 < a))"
| "fdiv (Fin a) _ = Fin 0"
| "fdiv PosInf (Fin b) = signed_inf (0 \<le> b)"
| "fdiv NegInf (Fin b) = signed_inf (b < 0)"
| "fdiv _ _ = NaN"

section \<open>Frames\<close>

text \<open>
  A \<open>DataFrame\<close> is a table: the list of its column names and its rows in order. A row is
  its index label and its cells by column name. The index labels of a price history are
  timestamps, of which the code reads only \<open>strftime('%Y-%m-%d')\<close>; a label is
  represented by that rendering.
\<close>

datatype error = KeyError | IndexError | AttributeError

type_synonym row = "string \<times> (string \<Rightarrow> fval)"

record frame =
  columns :: "string list"
  rows :: "row list"

definition len :: "frame \<Rightarrow> int" where
  "len df = int (length (rows df))"

text \<open>\<open>DataFrame.empty\<close>: some axis has length zero.\<close>

definition empty_df :: "frame \<Rightarrow> bool" where
  "empty_df df = (rows df = [] \<or> columns df = [])"

text \<open>Positional access \<open>df.iloc[i]\<close>; a negative position counts from the end.\<close>

definition iloc :: "frame \<Rightarrow> int \<Rightarrow> error + row" where
  "iloc df i =
     (let n = len df; j = (if i < 0 then n + i else i)
      in if 0 \<le> j \<and> j < n then Inr (rows df ! nat j) else Inl IndexError)"

text \<open>\<open>r[c]\<close> for a row \<open>r\<close> taken from \<open>df\<close>: the row's keys are the frame's columns.\<close>

definition item :: "frame \<Rightarrow> row \<Rightarrow> string \<Rightarrow> error + fval" where
  "item df r c = (if c \<in> set (columns df) then Inr (snd r c) else Inl KeyError)"

text \<open>\<open>df.index[i]\<close>.\<close>

definition index_at :: "frame \<Rightarrow> int \<Rightarrow> error + string" where
  "index_at df i = (case iloc df i of Inl e \<Rightarrow> Inl e | Inr r \<Rightarrow> Inr (fst r))"

text \<open>\<open>df[c].iloc[i]\<close>: the column is looked up first, then the position.\<close>

definition col_iloc :: "frame \<Rightarrow> string \<Rightarrow> int \<Rightarrow> error + fval" where
  "col_iloc df c i =
     (if c \<notin> set (columns df) then Inl KeyError
      else case iloc df i of Inl e \<Rightarrow> Inl e | Inr r \<Rightarrow> Inr (snd r c))"

text \<open>\<open>df.dropna()\<close>: a new frame without the rows that hold a \<open>NaN\<close> in some column.\<close>

definition dropna :: "frame \<Rightarrow> frame" where
  "dropna df = df\<lparr>rows := filter (\<lambda>r. \<forall>c \<in> set (columns df). snd r c \<noteq> NaN) (rows df)\<rparr>"

text \<open>\<open>df[c] = values\<close>, the values given by position: sets the column, appending it if new.\<close>

definition set_column :: "frame \<Rightarrow> string \<Rightarrow> (nat \<Rightarrow> fval) \<Rightarrow> frame" where
  "set_column df c v =
     \<lparr>columns = (if c \<in> set (columns df) then columns df else columns df @ [c]),
      rows = map (\<lambda>(k, r). (fst r, (snd r)(c := v k))) (enumerate 0 (rows df))\<rparr>"

text \<open>The column \<open>df[c]\<close> as a list of cells.\<close>

definition column :: "frame \<Rightarrow> string \<Rightarrow> fval list" where
  "column df c = map (\<lambda>r. snd r c) (rows df)"

section \<open>The signal test of the backtest loop\<close>

text \<open>
  Lines 41 to 48 of \<open>run_backtest\<close>: the two rows are read, then the RSI test, then the
  crossover test, whose second half is evaluated only when the first holds (\<open>and\<close>).
\<close>

definition bindE :: "error + 'a \<Rightarrow> ('a \<Rightarrow> error + 'b) \<Rightarrow> error + 'b" where
  "bindE m f = (case m of Inl e \<Rightarrow> Inl e | Inr x \<Rightarrow> f x)"

definition crossover :: "frame \<Rightarrow> row \<Rightarrow> row \<Rightarrow> error + bool" where
  "crossover df yesterday today =
     bindE (item df today ''SMA_20'') (\<lambda>t20.
     bindE (item df today ''SMA_50'') (\<lambda>t50.
       if fgt t20 t50 then
         bindE (item df yesterday ''SMA_20'') (\<lambda>y20.
         bindE (item df yesterday ''SMA_50'') (\<lambda>y50.
           Inr (fle y20 y50)))
       else Inr False))"

definition signal :: "frame \<Rightarrow> int \<Rightarrow> error + bool" where
  "signal data i =
     bindE (iloc data (i - 1)) (\<lambda>yesterday.
     bindE (iloc data i) (\<lambda>today.
     bindE (item data today ''RSI'') (\<lambda>rsi.
       let rsi_signal = flt rsi (Fin 30) in
     bindE (crossover data yesterday today) (\<lambda>crossover_signal.
       Inr (rsi_signal \<and> crossover_signal)))))"

section \<open>The trade scan\<close>

text \<open>One row of the trade log (the dictionary appended at lines 61 to 69).\<close>

record trade =
  Stock :: string
  Buy_Date :: string
  Buy_Price :: fval
  Sell_Date :: string
  Sell_Price :: fval
  Return_pct :: fval
  Status :: string

text \<open>Lines 58 to 69: the return of the trade and its record.\<close>

definition make_trade :: "string \<Rightarrow> string \<Rightarrow> fval \<Rightarrow> string \<Rightarrow> fval \<Rightarrow> trade" where
  "make_trade ticker buy_date buy_price sell_date sell_price =
     (let pct_return = fmul (fdiv (fsub sell_price buy_price) buy_price) (Fin 100)
      in \<lparr>Stock = ticker,
          Buy_Date = buy_date,
          Buy_Price = buy_price,
          Sell_Date = sell_date,
          Sell_Price = sell_price,
          Return_pct = pct_return,
          Status = (if fgt pct_return (Fin 0) then ''Win'' else ''Loss'')\<rparr>)"

text \<open>Lines 40 to 69: the body of the loop at index \<open>i\<close>, on the trades collected so far.\<close>

definition loop_body :: "frame \<Rightarrow> string \<Rightarrow> trade list \<Rightarrow> int \<Rightarrow> error + trade list" where
  "loop_body data ticker trades i =
     bindE (signal data i) (\<lambda>triggered.
       if triggered then
         bindE (index_at data (i + 1)) (\<lambda>buy_date.
         bindE (col_iloc data ''Open'' (i + 1)) (\<lambda>buy_price.
         bindE (index_at data (i + 6)) (\<lambda>sell_date.
         bindE (col_iloc data ''Open'' (i + 6)) (\<lambda>sell_price.
           Inr (trades @ [make_trade ticker buy_date buy_price sell_date sell_price])))))
       else Inr trades)"

text \<open>The \<open>for\<close> loop over a list of indices; an exception ends it.\<close>

fun for_loop :: "frame \<Rightarrow> string \<Rightarrow> int list \<Rightarrow> trade list \<Rightarrow> error + trade list" where
  "for_loop data ticker [] trades = Inr trades"
| "for_loop data ticker (i # rest) trades =
     (case loop_body data ticker trades i of
        Inl e \<Rightarrow> Inl e
      | Inr trades' \<Rightarrow> for_loop data ticker rest trades')"

text \<open>Python's \<open>range(a, b)\<close>.\<close>

definition range_py :: "int \<Rightarrow> int \<Rightarrow> int list" where
  "range_py a b = [a..b - 1]"

text \<open>Lines 35 to 69: \<open>trades = []\<close> and the loop over \<open>range(1, len(data) - 6)\<close>.\<close>

definition simulate :: "frame \<Rightarrow> string \<Rightarrow> error + trade list" where
  "simulate data ticker = for_loop data ticker (range_py 1 (len data - 6)) []"

section \<open>The summary\<close>

text \<open>
  \<open>f"{x:.2f}"\<close>: the decimal rendering with two digits after the point, the exact value
  of the float rounded half to even; the sign is kept when the rounded value is zero.
\<close>

definition digit :: "nat \<Rightarrow> char" where
  "digit d = ''0123456789'' ! d"

fun str_nat :: "nat \<Rightarrow> string" where
  "str_nat n = (if n < 10 then [digit n] else str_nat (n div 10) @ [digit (n mod 10)])"

definition format_2f :: "fval \<Rightarrow> string" where
  "format_2f x =
     (case x of
        NaN \<Rightarrow> ''nan''
      | PosInf \<Rightarrow> ''inf''
      | NegInf \<Rightarrow> ''-inf''
      | Fin r \<Rightarrow>
          (let h = nat (round_half_even (\<bar>r\<bar> * 100))
           in (if r < 0 then ''-'' else []) @ str_nat (h div 100) @ ''.''
              @ [digit (h mod 100 div 10), digit (h mod 10)]))"

text \<open>
  The library computations are not code of this repository and are parameters:
  \<open>ta.momentum.rsi(close, window)\<close> and \<open>close.rolling(window).mean()\<close>, each returning
  a series on the index of \<open>close\<close>, given here by position, and \<open>Series.mean()\<close>, whose
  order of summation is the library's own.
\<close>

record library =
  rsi :: "fval list \<Rightarrow> nat \<Rightarrow> nat \<Rightarrow> fval"
  rolling_mean :: "fval list \<Rightarrow> nat \<Rightarrow> nat \<Rightarrow> fval"
  series_mean :: "fval list \<Rightarrow> fval"

text \<open>
  The returned dictionary. Its two statistics are the integer \<open>0\<close> when there is no
  trade, and a formatted string otherwise.
\<close>

datatype stat = IntV int | StrV string

record summary =
  total_trades :: int
  win_ratio :: stat
  avg_return :: stat
  trade_log :: "trade list"

text \<open>Lines 71 to 94: the summary of the collected trades.\<close>

definition aggregate :: "library \<Rightarrow> trade list \<Rightarrow> summary" where
  "aggregate lib trades =
     (if trades = [] then
        \<lparr>total_trades = 0, win_ratio = IntV 0, avg_return = IntV 0, trade_log = []\<rparr>
      else
        (let total = int (length trades);
             wins = int (length (filter (\<lambda>t. Status t = ''Win'') trades));
             ratio = (if 0 < total
                      then fmul (fdiv (Fin (of_int wins)) (Fin (of_int total))) (Fin 100)
                      else Fin 0);
             avg = series_mean lib (map Return_pct trades)
         in \<lparr>total_trades = total,
             win_ratio = StrV (format_2f ratio @ ''%''),
             avg_return = StrV (format_2f avg @ ''%''),
             trade_log = trades\<rparr>))"

section \<open>Objects and the two entry points\<close>

text \<open>
  Frames are mutable objects: \<open>calculate_indicators\<close> writes three columns into the
  frame it is given. The store holds the frames by address; a new object gets the next
  address.
\<close>

type_synonym store = "frame list"

definition alloc :: "store \<Rightarrow> frame \<Rightarrow> nat \<times> store" where
  "alloc s df = (length s, s @ [df])"

text \<open>\<open>df.copy()\<close> and \<open>df.dropna()\<close> both return a new object.\<close>

definition copy :: "store \<Rightarrow> nat \<Rightarrow> nat \<times> store" where
  "copy s r = alloc s (s ! r)"

definition dropna_obj :: "store \<Rightarrow> nat \<Rightarrow> nat \<times> store" where
  "dropna_obj s r = alloc s (dropna (s ! r))"

text \<open>The three assignments of \<open>calculate_indicators\<close>, on a frame value.\<close>

definition add_indicators :: "library \<Rightarrow> frame \<Rightarrow> frame" where
  "add_indicators lib df =
     (let df1 = set_column df ''RSI'' (rsi lib (column df ''Close'') 14);
          df2 = set_column df1 ''SMA_20'' (rolling_mean lib (column df1 ''Close'') 20);
          df3 = set_column df2 ''SMA_50'' (rolling_mean lib (column df2 ''Close'') 50)
      in df3)"

text \<open>\<open>calculate_indicators\<close>: the frame at the given address is updated in place.\<close>

definition calculate_indicators :: "library \<Rightarrow> store \<Rightarrow> nat option \<Rightarrow> nat option \<times> store" where
  "calculate_indicators lib s data =
     (case data of
        None \<Rightarrow> (None, s)
      | Some r \<Rightarrow>
          if ''Close'' \<notin> set (columns (s ! r)) then (None, s)
          else (Some r, s[r := add_indicators lib (s ! r)]))"

text \<open>
  \<open>run_backtest\<close>. Calling \<open>dropna\<close> on the \<open>None\<close> that \<open>calculate_indicators\<close>
  returns for a frame without a \<open>Close\<close> column raises \<open>AttributeError\<close>.
\<close>

definition run_backtest ::
  "library \<Rightarrow> store \<Rightarrow> nat option \<Rightarrow> string \<Rightarrow> (error + summary option) \<times> store" where
  "run_backtest lib s stock_data ticker =
     (case stock_data of
        None \<Rightarrow> (Inr None, s)
      | Some r \<Rightarrow>
          if empty_df (s ! r) then (Inr None, s)
          else
            (let (c, s1) = copy s r;
                 (res, s2) = calculate_indicators lib s1 (Some c)
             in case res of
                  None \<Rightarrow> (Inl AttributeError, s2)
                | Some d \<Rightarrow>
                    (let (data, s3) = dropna_obj s2 d
                     in if len (s3 ! data) < 7 then (Inr None, s3)
                        else (case simulate (s3 ! data) ticker of
                                Inl e \<Rightarrow> (Inl e, s3)
                              | Inr trades \<Rightarrow> (Inr (Some (aggregate lib trades)), s3)))))"

text \<open>
  \<open>check_buy_signal\<close> reads its argument and rebinds the name to the cleaned copy, so it
  is a function of the frame value.
\<close>

definition check_buy_signal ::
  "frame option \<Rightarrow> error + (bool \<times> fval option \<times> fval option \<times> fval option)" where
  "check_buy_signal arg =
     (case arg of
        None \<Rightarrow> Inr (False, None, None, None)
      | Some df \<Rightarrow>
          if \<not> list_all (\<lambda>k. k \<in> set (columns df)) [''RSI'', ''SMA_20'', ''SMA_50'']
          then Inr (False, None, None, None)
          else
            (let data = dropna df
             in if len data < 2 then Inr (False, None, None, None)
                else
                  bindE (iloc data (- 1)) (\<lambda>latest_data.
                  bindE (iloc data (- 2)) (\<lambda>previous_data.
                  bindE (item data latest_data ''RSI'') (\<lambda>latest_rsi.
                  bindE (item data latest_data ''SMA_20'') (\<lambda>latest_sma_20.
                  bindE (item data latest_data ''SMA_50'') (\<lambda>latest_sma_50.
                    let rsi_condition = flt latest_rsi (Fin 30) in
                  bindE (if fgt latest_sma_20 latest_sma_50 then
                           bindE (item data previous_data ''SMA_20'') (\<lambda>p20.
                           bindE (item data previous_data ''SMA_50'') (\<lambda>p50.
                             Inr (fle p20 p50)))
                         else Inr False) (\<lambda>crossover_condition.
                    Inr (rsi_condition \<and> crossover_condition,
                         Some latest_rsi, Some latest_sma_20, Some latest_sma_50)))))))))"

section \<open>Notions used in the statements\<close>

text \<open>The cell and the index label at a position of a frame.\<close>

definition cell :: "frame \<Rightarrow> int \<Rightarrow> string \<Rightarrow> fval" where
  "cell df i c = snd (rows df ! nat i) c"

definition label :: "frame \<Rightarrow> int \<Rightarrow> string" where
  "label df i = fst (rows df ! nat i)"

text \<open>The loop index \<open>i\<close> detects: the signal test returns true there.\<close>

definition detects :: "frame \<Rightarrow> int \<Rightarrow> bool" where
  "detects data i = (signal data i = Inr True)"

text \<open>The trade bought at the open of bar \<open>i + 1\<close> and sold at the open of bar \<open>i + 6\<close>.\<close>

definition trade_at :: "frame \<Rightarrow> string \<Rightarrow> int \<Rightarrow> trade" where
  "trade_at data ticker i =
     make_trade ticker (label data (i + 1)) (cell data (i + 1) ''Open'')
       (label data (i + 6)) (cell data (i + 6) ''Open'')"

text \<open>The frame has the columns the loop reads.\<close>

definition feature_columns :: "frame \<Rightarrow> bool" where
  "feature_columns df =
     list_all (\<lambda>c. c \<in> set (columns df)) [''Open'', ''RSI'', ''SMA_20'', ''SMA_50'']"

text \<open>
  The indicator-cleaned series of a price frame: what \<open>run_backtest\<close> scans. There is
  none when the frame has no \<open>Close\<close> column.
\<close>

definition cleaned :: "library \<Rightarrow> frame \<Rightarrow> frame option" where
  "cleaned lib df =
     (if ''Close'' \<in> set (columns df) then Some (dropna (add_indicators lib df)) else None)"






section \<open>Example data\<close>

text \<open>A bar with an open price and the three indicator values.\<close>

definition bar :: "string \<Rightarrow> real \<Rightarrow> real \<Rightarrow> real \<Rightarrow> real \<Rightarrow> row" where
  "bar d opn r s20 s50 =
     (d, \<lambda>c. if c = ''Open'' then Fin opn
             else if c = ''RSI'' then Fin r
             else if c = ''SMA_20'' then Fin s20
             else if c = ''SMA_50'' then Fin s50
             else NaN)"

text \<open>
  Ten bars: the averages are equal at bar 1 and the fast one is above from bar 2 on, with
  an RSI under 30 at bars 2 and 3. Bar 3 opens at 100 and bar 8 at 110.
\<close>

definition ten_bars :: frame where
  "ten_bars =
     \<lparr>columns = [''Open'', ''RSI'', ''SMA_20'', ''SMA_50''],
      rows = [bar ''2024-01-01'' 90 50 10 12,
              bar ''2024-01-02'' 92 40 11 11,
              bar ''2024-01-03'' 95 25 12 11,
              bar ''2024-01-04'' 100 20 13 11,
              bar ''2024-01-05'' 101 35 14 11,
              bar ''2024-01-08'' 102 45 15 11,
              bar ''2024-01-09'' 103 50 16 11,
              bar ''2024-01-10'' 104 55 17 11,
              bar ''2024-01-11'' 110 60 18 11,
              bar ''2024-01-12'' 111 65 19 11]\<rparr>"

text \<open>
  Ten bars with two crosses under an RSI of 30, at bars 1 and 3, and a third cross at
  bar 6 under an RSI of 35. The trade of bar 1 runs from bar 2 to bar 7 and the trade of
  bar 3 from bar 4 to bar 9; bars 4 and 9 open at the same price.
\<close>

definition overlap_bars :: frame where
  "overlap_bars =
     \<lparr>columns = [''Open'', ''RSI'', ''SMA_20'', ''SMA_50''],
      rows = [bar ''2024-02-01'' 90 50 10 12,
              bar ''2024-02-02'' 91 25 13 12,
              bar ''2024-02-05'' 100 28 11 12,
              bar ''2024-02-06'' 101 20 13 12,
              bar ''2024-02-07'' 102 40 14 12,
              bar ''2024-02-08'' 103 45 11 12,
              bar ''2024-02-09'' 104 35 13 12,
              bar ''2024-02-12'' 110 50 14 12,
              bar ''2024-02-13'' 112 55 15 12,
              bar ''2024-02-14'' 102 60 16 12]\<rparr>"

text \<open>
  A frame with indicator columns whose first bar is not yet defined; the averages are
  equal on the second bar and crossed on the third.
\<close>

definition warmup_bar :: "string \<Rightarrow> real \<Rightarrow> row" where
  "warmup_bar d opn = (d, \<lambda>c. if c = ''Open'' then Fin opn else NaN)"

definition latest_bars :: frame where
  "latest_bars =
     \<lparr>columns = [''Open'', ''RSI'', ''SMA_20'', ''SMA_50''],
      rows = [warmup_bar ''2024-01-01'' 99,
              bar ''2024-01-02'' 100 40 11 11,
              bar ''2024-01-03'' 101 25 12 11]\<rparr>"

definition early_bars :: frame where
  "early_bars =
     \<lparr>columns = [''Open'', ''RSI'', ''SMA_20'', ''SMA_50''],
      rows = [warmup_bar ''2024-01-01'' 99,
              bar ''2024-01-02'' 100 40 11 11]\<rparr>"


text \<open>
  A mean that skips the missing values and adds the others from left to right.
\<close>

definition mean_seq :: "fval list \<Rightarrow> fval" where
  "mean_seq xs =
     (let ys = filter (\<lambda>x. x \<noteq> NaN) xs
      in if ys = [] then NaN
         else fdiv (foldl fadd (Fin 0) ys) (Fin (real (length ys))))"

text \<open>
  A stand-in for the library, with two undefined leading values in place of the 13, 19
  and 49 of the real windows: the RSI is 25, the fast average is the close of the bar and
  the slow one the close of the bar before; the mean is the left-to-right one.
\<close>

definition toy_library :: library where
  "toy_library =
     \<lparr>rsi = (\<lambda>close window k. if k < 2 then NaN else Fin 25),
      rolling_mean = (\<lambda>close window k.
         if k < 2 then NaN else if window = 20 then close ! k else close ! (k - 1)),
      series_mean = mean_seq\<rparr>"

definition price_bar :: "string \<Rightarrow> real \<Rightarrow> real \<Rightarrow> row" where
  "price_bar d opn cls =
     (d, \<lambda>c. if c = ''Open'' then Fin opn else if c = ''Close'' then Fin cls else NaN)"

text \<open>Twelve price bars; the close falls for three bars and rises from the fourth on.\<close>

definition twelve_prices :: frame where
  "twelve_prices =
     \<lparr>columns = [''Open'', ''Close''],
      rows = [price_bar ''2024-01-01'' 100 10,
              price_bar ''2024-01-02'' 100 9,
              price_bar ''2024-01-03'' 100 8,
              price_bar ''2024-01-04'' 100 9,
              price_bar ''2024-01-05'' 100 10,
              price_bar ''2024-01-08'' 100 11,
              price_bar ''2024-01-09'' 100 12,
              price_bar ''2024-01-10'' 100 13,
              price_bar ''2024-01-11'' 100 14,
              price_bar ''2024-01-12'' 105 15,
              price_bar ''2024-01-15'' 100 16,
              price_bar ''2024-01-16'' 100 17]\<rparr>"

text \<open>Three price bars, too few for a backtest.\<close>

definition three_prices :: frame where
  "three_prices =
     \<lparr>columns = [''Open'', ''Close''],
      rows = [price_bar ''2024-01-01'' 100 10,
              price_bar ''2024-01-02'' 100 9,
              price_bar ''2024-01-03'' 100 8]\<rparr>"

section \<open>Basic facts\<close>

declare str_nat.simps [simp del]

lemma bindE_Inr [simp]: "bindE (Inr x) f = f x"
  by (simp add: bindE_def)

lemma bindE_Inl [simp]: "bindE (Inl e) f = Inl e"
  by (simp add: bindE_def)

lemma iloc_in_range: "0 \<le> i \<Longrightarrow> i < len df \<Longrightarrow> iloc df i = Inr (rows df ! nat i)"
  by (simp add: iloc_def Let_def)

lemma item_present: "c \<in> set (columns df) \<Longrightarrow> item df r c = Inr (snd r c)"
  by (simp add: item_def)

lemma index_at_in_range: "0 \<le> i \<Longrightarrow> i < len df \<Longrightarrow> index_at df i = Inr (label df i)"
  by (simp add: index_at_def iloc_in_range label_def)

lemma col_iloc_in_range:
  "c \<in> set (columns df) \<Longrightarrow> 0 \<le> i \<Longrightarrow> i < len df \<Longrightarrow> col_iloc df c i = Inr (cell df i c)"
  by (simp add: col_iloc_def iloc_in_range cell_def)

lemma feature_columns_iff:
  "feature_columns df \<longleftrightarrow>
     ''Open'' \<in> set (columns df) \<and> ''RSI'' \<in> set (columns df) \<and>
     ''SMA_20'' \<in> set (columns df) \<and> ''SMA_50'' \<in> set (columns df)"
  by (simp add: feature_columns_def)

lemma exponent_zero: "exponent 0 = - 1022"
  by (simp add: exponent_def)

lemma round_f64_zero [simp]: "round_f64 0 = Fin 0"
  by (simp add: round_f64_def exponent_zero round_half_even_def)

lemmas f64_eval = round_f64_def exponent_def round_half_even_def Let_def

lemma fle_refl: "a \<noteq> NaN \<Longrightarrow> fle a a"
  by (cases a) simp_all

lemma flt_not_fle: "flt a b \<Longrightarrow> \<not> fle b a"
  by (cases a; cases b) simp_all

lemma fle_not_flt: "fle a b \<Longrightarrow> \<not> flt b a"
  by (cases a; cases b) simp_all

lemma set_range_py: "set (range_py a b) = {i. a \<le> i \<and> i < b}"
  by (auto simp: range_py_def)

lemma range_py_upto: "range_py 1 (n - 6) = [1..n - 7]"
  by (simp add: range_py_def)

lemmas ten_bars_eval = ten_bars_def bar_def len_def cell_def label_def

lemmas overlap_bars_eval = overlap_bars_def bar_def len_def cell_def label_def

section \<open>The signal test\<close>

lemma signal_value:
  assumes "1 \<le> i" and "i < len data"
    and "''RSI'' \<in> set (columns data)"
    and "''SMA_20'' \<in> set (columns data)"
    and "''SMA_50'' \<in> set (columns data)"
  shows "signal data i =
           Inr (flt (cell data i ''RSI'') (Fin 30)
                \<and> fgt (cell data i ''SMA_20'') (cell data i ''SMA_50'')
                \<and> fle (cell data (i - 1) ''SMA_20'') (cell data (i - 1) ''SMA_50''))"
  using assms
  by (simp add: signal_def crossover_def iloc_in_range item_present cell_def)

text \<open>
  C1. At an index \<open>i\<close> with \<open>1 \<le> i < len data\<close> whose bar and the bar before have defined
  RSI, SMA_20 and SMA_50, the signal test returns true exactly when the RSI of bar \<open>i\<close> is
  under 30, its SMA_20 is above its SMA_50, and the SMA_20 of bar \<open>i - 1\<close> is at most its
  SMA_50. Equal averages on the bar before count as a cross; a fast average already above
  on the bar before gives false; an RSI of 30 or more gives false.
\<close>

theorem signal_iff:
  assumes "1 \<le> i" and "i < len data"
    and "''RSI'' \<in> set (columns data)"
    and "''SMA_20'' \<in> set (columns data)"
    and "''SMA_50'' \<in> set (columns data)"
    and "cell data i ''RSI'' = r" and "r \<noteq> NaN"
    and "cell data i ''SMA_20'' = t20" and "t20 \<noteq> NaN"
    and "cell data i ''SMA_50'' = t50" and "t50 \<noteq> NaN"
    and "cell data (i - 1) ''SMA_20'' = y20" and "y20 \<noteq> NaN"
    and "cell data (i - 1) ''SMA_50'' = y50" and "y50 \<noteq> NaN"
  shows "signal data i = Inr (flt r (Fin 30) \<and> fgt t20 t50 \<and> fle y20 y50)
       \<and> (flt r (Fin 30) \<and> fgt t20 t50 \<and> y20 = y50 \<longrightarrow> signal data i = Inr True)
       \<and> (fgt y20 y50 \<longrightarrow> signal data i = Inr False)
       \<and> (fle (Fin 30) r \<longrightarrow> signal data i = Inr False)"
proof -
  have v: "signal data i = Inr (flt r (Fin 30) \<and> fgt t20 t50 \<and> fle y20 y50)"
    using assms by (simp add: signal_value)
  have eq: "y20 = y50 \<Longrightarrow> fle y20 y50"
    using \<open>y20 \<noteq> NaN\<close> by (simp add: fle_refl)
  have above: "fgt y20 y50 \<Longrightarrow> \<not> fle y20 y50"
    by (simp add: fgt_def flt_not_fle)
  have high: "fle (Fin 30) r \<Longrightarrow> \<not> flt r (Fin 30)"
    by (rule fle_not_flt)
  show ?thesis
    using v eq above high by auto
qed

theorem signal_iff_witness:
  "signal ten_bars 2 = Inr True \<and> signal ten_bars 3 = Inr False
   \<and> signal overlap_bars 6 = Inr False"
proof -
  have "signal ten_bars 2 = Inr True"
    using signal_iff [of 2 ten_bars "Fin 25" "Fin 12" "Fin 11" "Fin 11" "Fin 11"]
    by (simp add: ten_bars_eval fgt_def)
  moreover have "signal ten_bars 3 = Inr False"
    using signal_iff [of 3 ten_bars "Fin 20" "Fin 13" "Fin 11" "Fin 12" "Fin 11"]
    by (simp add: ten_bars_eval fgt_def)
  moreover have "signal overlap_bars 6 = Inr False"
    using signal_iff [of 6 overlap_bars "Fin 35" "Fin 13" "Fin 12" "Fin 11" "Fin 12"]
    by (simp add: overlap_bars_eval fgt_def)
  ultimately show ?thesis by simp
qed

section \<open>The trade scan\<close>

lemma loop_body_value:
  assumes "1 \<le> i" and "i + 6 < len data" and "feature_columns data"
  shows "loop_body data ticker trades i =
           Inr (if detects data i then trades @ [trade_at data ticker i] else trades)"
proof -
  from assms obtain b where b: "signal data i = Inr b"
    by (simp add: signal_value feature_columns_iff)
  show ?thesis
    using assms b
    by (simp add: loop_body_def detects_def trade_at_def index_at_in_range
        col_iloc_in_range feature_columns_iff)
qed

lemma for_loop_value:
  assumes "feature_columns data"
    and "\<forall>i \<in> set idxs. 1 \<le> i \<and> i + 6 < len data"
  shows "for_loop data ticker idxs trades =
           Inr (trades @ map (trade_at data ticker) (filter (detects data) idxs))"
  using assms(2)
proof (induction idxs arbitrary: trades)
  case Nil
  then show ?case by simp
next
  case (Cons i rest)
  then have "1 \<le> i" and "i + 6 < len data" by simp_all
  then have "loop_body data ticker trades i =
               Inr (if detects data i then trades @ [trade_at data ticker i] else trades)"
    using assms(1) by (rule loop_body_value)
  moreover have "\<forall>i \<in> set rest. 1 \<le> i \<and> i + 6 < len data"
    using Cons.prems by simp
  ultimately show ?case
    using Cons.IH by simp
qed

lemma simulate_value:
  assumes "feature_columns data"
  shows "simulate data ticker =
           Inr (map (trade_at data ticker) (filter (detects data) [1..len data - 7]))"
proof -
  have "\<forall>i \<in> set (range_py 1 (len data - 6)). 1 \<le> i \<and> i + 6 < len data"
    by (auto simp: set_range_py)
  with assms have "simulate data ticker =
      Inr ([] @ map (trade_at data ticker) (filter (detects data) (range_py 1 (len data - 6))))"
    unfolding simulate_def by (rule for_loop_value)
  then show ?thesis
    by (simp add: range_py_upto)
qed

lemma detects_overlap_bars: "filter (detects overlap_bars) [1..3] = [1, 3]"
proof -
  have "signal overlap_bars 1 = Inr True" "signal overlap_bars 2 = Inr False"
    "signal overlap_bars 3 = Inr True"
    by (simp_all add: signal_value overlap_bars_eval fgt_def)
  then have "detects overlap_bars 1" "\<not> detects overlap_bars 2" "detects overlap_bars 3"
    by (simp_all add: detects_def)
  then show ?thesis
    by (simp add: upto_rec1)
qed

lemma simulate_overlap_bars:
  "simulate overlap_bars ''X'' =
     Inr [trade_at overlap_bars ''X'' 1, trade_at overlap_bars ''X'' 3]"
proof -
  have "feature_columns overlap_bars" and "len overlap_bars - 7 = 3"
    by (simp_all add: overlap_bars_eval feature_columns_def)
  then show ?thesis
    using simulate_value [of overlap_bars "''X''"] by (simp add: detects_overlap_bars)
qed

lemma detects_ten_bars: "filter (detects ten_bars) [1..3] = [2]"
proof -
  have "signal ten_bars 1 = Inr False" "signal ten_bars 2 = Inr True"
    "signal ten_bars 3 = Inr False"
    by (simp_all add: signal_value ten_bars_eval fgt_def)
  then have "\<not> detects ten_bars 1" "detects ten_bars 2" "\<not> detects ten_bars 3"
    by (simp_all add: detects_def)
  then show ?thesis
    by (simp add: upto_rec1)
qed

text \<open>
  C2. On a series of at least 7 bars with the columns the loop reads, the scan evaluates
  the signal test at the indices 1 to \<open>len data - 7\<close> and returns, in order, one trade for
  each index that detects: bought at the open of bar \<open>i + 1\<close> and sold at the open of bar
  \<open>i + 6\<close>. Each detecting index gives its own trade whatever the other indices do, so
  there are as many trades as detecting indices.
\<close>

theorem simulate_scan:
  assumes "7 \<le> len data" and "feature_columns data"
  shows "simulate data ticker = for_loop data ticker [1..len data - 7] []
       \<and> simulate data ticker =
           Inr (map (trade_at data ticker) (filter (detects data) [1..len data - 7]))
       \<and> (\<forall>trades. simulate data ticker = Inr trades \<longrightarrow>
            length trades = length (filter (detects data) [1..len data - 7]))
       \<and> (\<forall>i. Buy_Price (trade_at data ticker i) = cell data (i + 1) ''Open''
            \<and> Sell_Price (trade_at data ticker i) = cell data (i + 6) ''Open'')"
proof -
  have v: "simulate data ticker =
      Inr (map (trade_at data ticker) (filter (detects data) [1..len data - 7]))"
    using assms(2) by (rule simulate_value)
  have p: "\<forall>i. Buy_Price (trade_at data ticker i) = cell data (i + 1) ''Open''
            \<and> Sell_Price (trade_at data ticker i) = cell data (i + 6) ''Open''"
    by (simp add: trade_at_def make_trade_def Let_def)
  have l: "simulate data ticker = for_loop data ticker [1..len data - 7] []"
    by (simp add: simulate_def range_py_upto)
  have c: "\<forall>trades. simulate data ticker = Inr trades \<longrightarrow>
            length trades = length (filter (detects data) [1..len data - 7])"
    using v by simp
  show ?thesis
    by (intro conjI l v c p)
qed

theorem simulate_scan_witness:
  "simulate overlap_bars ''X'' =
     Inr [trade_at overlap_bars ''X'' 1, trade_at overlap_bars ''X'' 3]
   \<and> Buy_Price (trade_at overlap_bars ''X'' 1) = Fin 100
   \<and> Sell_Price (trade_at overlap_bars ''X'' 1) = Fin 110
   \<and> Buy_Price (trade_at overlap_bars ''X'' 3) = Fin 102
   \<and> Sell_Price (trade_at overlap_bars ''X'' 3) = Fin 102"
proof -
  have n: "7 \<le> len overlap_bars" and c: "feature_columns overlap_bars"
    by (simp_all add: overlap_bars_eval feature_columns_def)
  have r: "len overlap_bars - 7 = 3"
    by (simp add: overlap_bars_eval)
  have o: "cell overlap_bars (1 + 1) ''Open'' = Fin 100"
    "cell overlap_bars (1 + 6) ''Open'' = Fin 110"
    "cell overlap_bars (3 + 1) ''Open'' = Fin 102"
    "cell overlap_bars (3 + 6) ''Open'' = Fin 102"
    by (simp_all add: overlap_bars_eval)
  note scan = simulate_scan [OF n c, of "''X''"]
  have "simulate overlap_bars ''X'' =
          Inr (map (trade_at overlap_bars ''X'')
                 (filter (detects overlap_bars) [1..len overlap_bars - 7]))"
    using scan by blast
  then have a: "simulate overlap_bars ''X'' =
                  Inr [trade_at overlap_bars ''X'' 1, trade_at overlap_bars ''X'' 3]"
    by (simp add: r detects_overlap_bars)
  have "\<forall>i. Buy_Price (trade_at overlap_bars ''X'' i) = cell overlap_bars (i + 1) ''Open''
            \<and> Sell_Price (trade_at overlap_bars ''X'' i) = cell overlap_bars (i + 6) ''Open''"
    using scan by blast
  then have b: "Buy_Price (trade_at overlap_bars ''X'' 1) = Fin 100"
    "Sell_Price (trade_at overlap_bars ''X'' 1) = Fin 110"
    "Buy_Price (trade_at overlap_bars ''X'' 3) = Fin 102"
    "Sell_Price (trade_at overlap_bars ''X'' 3) = Fin 102"
    using o by simp_all
  show ?thesis
    by (intro conjI a b)
qed

text \<open>
  C7. On a series of fewer than 7 bars the scan returns the empty list of trades and
  raises nothing: the range of the loop is empty.
\<close>

theorem simulate_short:
  assumes "len data < 7"
  shows "simulate data ticker = Inr []"
proof -
  have "range_py 1 (len data - 6) = []"
    using assms by (simp add: range_py_def)
  then show ?thesis by (simp add: simulate_def)
qed

theorem simulate_short_witness:
  "simulate three_prices ''X'' = Inr []"
proof -
  have "len three_prices < 7"
    by (simp add: three_prices_def len_def)
  then show ?thesis by (rule simulate_short)
qed

lemma loop_body_appends:
  assumes "loop_body data ticker trades i = Inr trades'"
  shows "trades' = trades \<or>
         (\<exists>bd bp sd sp. trades' = trades @ [make_trade ticker bd bp sd sp])"
  using assms
  by (auto simp: loop_body_def bindE_def split: sum.splits if_splits)

lemma for_loop_made:
  assumes "for_loop data ticker idxs acc = Inr trades"
    and "\<forall>t \<in> set acc. \<exists>bd bp sd sp. t = make_trade ticker bd bp sd sp"
  shows "\<forall>t \<in> set trades. \<exists>bd bp sd sp. t = make_trade ticker bd bp sd sp"
  using assms
proof (induction idxs arbitrary: acc)
  case Nil
  then show ?case by simp
next
  case (Cons i rest)
  from Cons.prems(1) obtain acc' where
    b: "loop_body data ticker acc i = Inr acc'" and
    l: "for_loop data ticker rest acc' = Inr trades"
    by (auto split: sum.splits)
  from loop_body_appends [OF b] Cons.prems(2)
  have "\<forall>t \<in> set acc'. \<exists>bd bp sd sp. t = make_trade ticker bd bp sd sp"
    by fastforce
  with l show ?case by (rule Cons.IH)
qed

lemma zero_return_not_win: "\<not> fgt (fmul (fdiv (fsub p p) p) (Fin 100)) (Fin 0)"
  by (cases p) (simp_all add: fsub_def fgt_def)

lemma make_trade_facts:
  fixes t :: trade
  assumes "t = make_trade ticker bd bp sd sp"
  shows "Return_pct t = fmul (fdiv (fsub (Sell_Price t) (Buy_Price t)) (Buy_Price t)) (Fin 100)"
    and "Status t = ''Win'' \<longleftrightarrow> fgt (Return_pct t) (Fin 0)"
    and "Status t = ''Win'' \<or> Status t = ''Loss''"
    and "Sell_Price t = Buy_Price t \<longrightarrow> Status t = ''Loss''"
    and "Return_pct t = Fin 0 \<longrightarrow> Status t = ''Loss''"
  using assms zero_return_not_win [of bp]
  by (auto simp: make_trade_def Let_def fgt_def)

text \<open>
  C3. Every trade the scan returns has the return
  \<open>(Sell_Price - Buy_Price) / Buy_Price * 100\<close>, computed in floating point; its status
  is \<open>Win\<close> exactly when the return is above zero and is \<open>Loss\<close> otherwise, so a sell
  price equal to the buy price, or a return of zero, is a \<open>Loss\<close>.
\<close>

theorem trade_return_status:
  assumes "simulate data ticker = Inr trades" and "t \<in> set trades"
  shows "Return_pct t = fmul (fdiv (fsub (Sell_Price t) (Buy_Price t)) (Buy_Price t)) (Fin 100)
       \<and> (Status t = ''Win'' \<longleftrightarrow> fgt (Return_pct t) (Fin 0))
       \<and> (Status t = ''Win'' \<or> Status t = ''Loss'')
       \<and> (Sell_Price t = Buy_Price t \<longrightarrow> Status t = ''Loss'')
       \<and> (Return_pct t = Fin 0 \<longrightarrow> Status t = ''Loss'')"
proof -
  have "\<forall>t \<in> set trades. \<exists>bd bp sd sp. t = make_trade ticker bd bp sd sp"
    using assms(1) unfolding simulate_def by (rule for_loop_made) simp
  with assms(2) obtain bd bp sd sp where "t = make_trade ticker bd bp sd sp"
    by blast
  from make_trade_facts [OF this] show ?thesis
    by blast
qed

text \<open>
  The return is the float and not the real number: from 100 to 107 it is
  \<open>7.000000000000001\<close>, one spacing above 7; from 100 to 110 it is 10.
\<close>

lemma return_100_107:
  "fmul (fdiv (fsub (Fin 107) (Fin 100)) (Fin 100)) (Fin 100) = Fin (7 + 1 / 2 ^ 50)"
  by (simp add: fsub_def f64_eval)

lemma return_100_110:
  "fmul (fdiv (fsub (Fin 110) (Fin 100)) (Fin 100)) (Fin 100) = Fin 10"
  by (simp add: fsub_def f64_eval)

lemma return_102_102:
  "fmul (fdiv (fsub (Fin 102) (Fin 102)) (Fin 102)) (Fin 100) = Fin 0"
  by (simp add: fsub_def)

lemma simulate_ten_bars: "simulate ten_bars ''X'' = Inr [trade_at ten_bars ''X'' 2]"
proof -
  have "feature_columns ten_bars" and "len ten_bars - 7 = 3"
    by (simp_all add: ten_bars_eval feature_columns_def)
  then show ?thesis
    using simulate_value [of ten_bars "''X''"] by (simp add: detects_ten_bars)
qed

theorem trade_return_status_witness:
  "Return_pct (trade_at overlap_bars ''X'' 1) = Fin 10
   \<and> Status (trade_at overlap_bars ''X'' 1) = ''Win''
   \<and> Return_pct (trade_at overlap_bars ''X'' 3) = Fin 0
   \<and> Status (trade_at overlap_bars ''X'' 3) = ''Loss''"
proof -
  have m: "trade_at overlap_bars ''X'' 1
             \<in> set [trade_at overlap_bars ''X'' 1, trade_at overlap_bars ''X'' 3]"
    "trade_at overlap_bars ''X'' 3
             \<in> set [trade_at overlap_bars ''X'' 1, trade_at overlap_bars ''X'' 3]"
    by simp_all
  have p: "Buy_Price (trade_at overlap_bars ''X'' 1) = Fin 100"
    "Sell_Price (trade_at overlap_bars ''X'' 1) = Fin 110"
    "Buy_Price (trade_at overlap_bars ''X'' 3) = Fin 102"
    "Sell_Price (trade_at overlap_bars ''X'' 3) = Fin 102"
    by (simp_all add: trade_at_def make_trade_def Let_def overlap_bars_eval)
  have w: "Return_pct (trade_at overlap_bars ''X'' 1) = Fin 10
             \<and> Status (trade_at overlap_bars ''X'' 1) = ''Win''"
    using trade_return_status [OF simulate_overlap_bars m(1)]
    by (simp add: p return_100_110 fgt_def)
  have z: "Return_pct (trade_at overlap_bars ''X'' 3) = Fin 0
             \<and> Status (trade_at overlap_bars ''X'' 3) = ''Loss''"
    using trade_return_status [OF simulate_overlap_bars m(2)]
    by (simp add: p return_102_102 fgt_def)
  show ?thesis
    using w z by simp
qed

section \<open>Positions read by the scan\<close>

lemma loop_body_no_index_error:
  assumes "1 \<le> i" and "i + 6 < len data"
  shows "loop_body data ticker trades i \<noteq> Inl IndexError"
  using assms
  by (auto simp: loop_body_def signal_def crossover_def index_at_def col_iloc_def
      iloc_in_range item_def bindE_def split: sum.splits if_splits)

lemma for_loop_no_index_error:
  assumes "\<forall>i \<in> set idxs. 1 \<le> i \<and> i + 6 < len data"
  shows "for_loop data ticker idxs trades \<noteq> Inl IndexError"
  using assms
proof (induction idxs arbitrary: trades)
  case Nil
  then show ?case by simp
next
  case (Cons i rest)
  then have "loop_body data ticker trades i \<noteq> Inl IndexError"
    by (simp add: loop_body_no_index_error)
  then show ?case
    using Cons by (auto split: sum.splits)
qed

text \<open>
  C9. On a series of \<open>n \<ge> 7\<close> bars, every position the loop reads, \<open>i - 1\<close>, \<open>i\<close>,
  \<open>i + 1\<close> and \<open>i + 6\<close> for each \<open>i\<close> of \<open>range(1, n - 6)\<close>, lies in \<open>[0, n)\<close>, so each
  positional read returns the row there and the scan never ends in \<open>IndexError\<close>. The
  bound of the range alone gives this; the loop has no test of its own.
\<close>

theorem scan_in_bounds:
  assumes "7 \<le> len data"
  shows "(\<forall>i \<in> set (range_py 1 (len data - 6)). \<forall>j \<in> {i - 1, i, i + 1, i + 6}.
            0 \<le> j \<and> j < len data \<and> iloc data j = Inr (rows data ! nat j))
       \<and> simulate data ticker \<noteq> Inl IndexError"
proof -
  have r: "\<forall>i \<in> set (range_py 1 (len data - 6)). 1 \<le> i \<and> i + 6 < len data"
    by (auto simp: set_range_py)
  then have "\<forall>i \<in> set (range_py 1 (len data - 6)). \<forall>j \<in> {i - 1, i, i + 1, i + 6}.
            0 \<le> j \<and> j < len data \<and> iloc data j = Inr (rows data ! nat j)"
    by (auto simp: iloc_in_range)
  moreover have "simulate data ticker \<noteq> Inl IndexError"
    unfolding simulate_def using r by (rule for_loop_no_index_error)
  ultimately show ?thesis by simp
qed

theorem scan_in_bounds_witness:
  "iloc ten_bars (3 + 6) = Inr (rows ten_bars ! nat (3 + 6))
   \<and> simulate ten_bars ''X'' \<noteq> Inl IndexError"
proof -
  have n: "7 \<le> len ten_bars"
    by (simp add: ten_bars_eval)
  have i: "3 \<in> set (range_py 1 (len ten_bars - 6))"
    by (simp add: set_range_py ten_bars_eval)
  show ?thesis
    using scan_in_bounds [OF n, of "''X''"] i by blast
qed

section \<open>Rendering and reading a statistic\<close>
















section \<open>Accuracy of the rounding\<close>






section \<open>The summary\<close>


text \<open>
  The ratio is the float and not the real number: 23 wins in 160 trades give
  \<open>14.374999999999998\<close>, shown as \<open>14.37\<close>, where \<open>100 * 23 / 160\<close> is \<open>14.375\<close>.
\<close>

lemma ratio_23_160:
  "fmul (fdiv (Fin 23) (Fin 160)) (Fin 100) = Fin (8092405580431359 / 2 ^ 49)"
  by (simp add: f64_eval)

lemma format_23_160: "format_2f (fmul (fdiv (Fin 23) (Fin 160)) (Fin 100)) = ''14.37''"
  unfolding ratio_23_160
  by (simp add: format_2f_def round_half_even_def Let_def str_nat.simps digit_def)

text \<open>
  A rise from 625 to 625.03125 is a return of \<open>0.005000000000000001\<close>, shown as
  \<open>0.01\<close>, where the real number \<open>0.005\<close> would be shown as \<open>0.00\<close>.
\<close>

lemma return_625:
  "fmul (fdiv (fsub (Fin (625 + 1 / 32)) (Fin 625)) (Fin 625)) (Fin 100) =
     Fin (5764607523034235 / 2 ^ 60)"
  by (simp add: fsub_def f64_eval)

lemma format_return_625:
  "format_2f (fmul (fdiv (fsub (Fin (625 + 1 / 32)) (Fin 625)) (Fin 625)) (Fin 100)) = ''0.01''"
  unfolding return_625
  by (simp add: format_2f_def round_half_even_def Let_def str_nat.simps digit_def)

lemma format_real_625: "format_2f (Fin (5 / 1000)) = ''0.00''"
  by (simp add: format_2f_def round_half_even_def Let_def str_nat.simps digit_def)











text \<open>
  C5. With no trade, the summary has \<open>total_trades = 0\<close>, the integer \<open>0\<close> for both
  statistics and an empty trade log; nothing is raised.
\<close>

theorem aggregate_empty:
  "aggregate lib [] =
     \<lparr>total_trades = 0, win_ratio = IntV 0, avg_return = IntV 0, trade_log = []\<rparr>"
  by (simp add: aggregate_def)

section \<open>The latest-signal check\<close>

lemma columns_dropna [simp]: "columns (dropna df) = columns df"
  by (simp add: dropna_def)

lemma iloc_from_end:
  assumes "0 < k" and "k \<le> len df"
  shows "iloc df (- k) = Inr (rows df ! nat (len df - k))"
  using assms by (simp add: iloc_def Let_def)

text \<open>
  C8. For a frame with the three indicator columns, let \<open>data\<close> be its cleaned rows and
  \<open>n\<close> their number. With \<open>n \<ge> 2\<close>, \<open>check_buy_signal\<close> returns the boolean the
  signal test of the backtest gives at index \<open>n - 1\<close> (RSI of the last bar under 30, its
  SMA_20 above its SMA_50, and SMA_20 at most SMA_50 on the bar before), with the last
  bar's RSI, SMA_20 and SMA_50. With \<open>n < 2\<close> it returns false and three \<open>None\<close>s, and
  raises nothing.
\<close>

theorem check_buy_signal_latest:
  assumes "''RSI'' \<in> set (columns df)"
    and "''SMA_20'' \<in> set (columns df)"
    and "''SMA_50'' \<in> set (columns df)"
    and "data = dropna df" and "n = len data"
  shows "(2 \<le> n \<longrightarrow>
            (\<exists>b. signal data (n - 1) = Inr b
               \<and> b = (flt (cell data (n - 1) ''RSI'') (Fin 30)
                      \<and> fgt (cell data (n - 1) ''SMA_20'') (cell data (n - 1) ''SMA_50'')
                      \<and> fle (cell data (n - 2) ''SMA_20'') (cell data (n - 2) ''SMA_50''))
               \<and> check_buy_signal (Some df) =
                   Inr (b, Some (cell data (n - 1) ''RSI''),
                        Some (cell data (n - 1) ''SMA_20''),
                        Some (cell data (n - 1) ''SMA_50''))))
       \<and> (n < 2 \<longrightarrow> check_buy_signal (Some df) = Inr (False, None, None, None))"
proof -
  have cols: "''RSI'' \<in> set (columns data)" "''SMA_20'' \<in> set (columns data)"
    "''SMA_50'' \<in> set (columns data)"
    using assms by simp_all
  have short: "n < 2 \<Longrightarrow> check_buy_signal (Some df) = Inr (False, None, None, None)"
    using assms by (simp add: check_buy_signal_def Let_def)
  have long: "\<exists>b. signal data (n - 1) = Inr b
               \<and> b = (flt (cell data (n - 1) ''RSI'') (Fin 30)
                      \<and> fgt (cell data (n - 1) ''SMA_20'') (cell data (n - 1) ''SMA_50'')
                      \<and> fle (cell data (n - 2) ''SMA_20'') (cell data (n - 2) ''SMA_50''))
               \<and> check_buy_signal (Some df) =
                   Inr (b, Some (cell data (n - 1) ''RSI''),
                        Some (cell data (n - 1) ''SMA_20''),
                        Some (cell data (n - 1) ''SMA_50''))"
    if n2: "2 \<le> n"
  proof -
    have s: "signal data (n - 1) =
               Inr (flt (cell data (n - 1) ''RSI'') (Fin 30)
                    \<and> fgt (cell data (n - 1) ''SMA_20'') (cell data (n - 1) ''SMA_50'')
                    \<and> fle (cell data (n - 1 - 1) ''SMA_20'') (cell data (n - 1 - 1) ''SMA_50''))"
      using n2 assms(5) cols by (intro signal_value) simp_all
    have l1: "iloc data (- 1) = Inr (rows data ! nat (n - 1))"
      using n2 assms(5) iloc_from_end [of 1 data] by simp
    have l2: "iloc data (- 2) = Inr (rows data ! nat (n - 2))"
      using n2 assms(5) iloc_from_end [of 2 data] by simp
    have c: "check_buy_signal (Some df) =
               Inr (flt (cell data (n - 1) ''RSI'') (Fin 30)
                    \<and> fgt (cell data (n - 1) ''SMA_20'') (cell data (n - 1) ''SMA_50'')
                    \<and> fle (cell data (n - 2) ''SMA_20'') (cell data (n - 2) ''SMA_50''),
                    Some (cell data (n - 1) ''RSI''),
                    Some (cell data (n - 1) ''SMA_20''),
                    Some (cell data (n - 1) ''SMA_50''))"
      using n2 assms cols
      by (simp add: check_buy_signal_def Let_def l1 [simplified assms(4)] l2 [simplified assms(4)]
          item_present cell_def)
    show ?thesis
      using s c by simp
  qed
  show ?thesis
    using short long by blast
qed

lemma dropna_latest_bars:
  "dropna latest_bars =
     \<lparr>columns = [''Open'', ''RSI'', ''SMA_20'', ''SMA_50''],
      rows = [bar ''2024-01-02'' 100 40 11 11, bar ''2024-01-03'' 101 25 12 11]\<rparr>"
  by (simp add: dropna_def latest_bars_def bar_def warmup_bar_def)

lemma dropna_early_bars:
  "dropna early_bars =
     \<lparr>columns = [''Open'', ''RSI'', ''SMA_20'', ''SMA_50''],
      rows = [bar ''2024-01-02'' 100 40 11 11]\<rparr>"
  by (simp add: dropna_def early_bars_def bar_def warmup_bar_def)

theorem check_buy_signal_latest_witness:
  "check_buy_signal (Some latest_bars) = Inr (True, Some (Fin 25), Some (Fin 12), Some (Fin 11))
   \<and> check_buy_signal (Some early_bars) = Inr (False, None, None, None)"
proof -
  have c: "''RSI'' \<in> set (columns latest_bars)" "''SMA_20'' \<in> set (columns latest_bars)"
    "''SMA_50'' \<in> set (columns latest_bars)"
    by (simp_all add: latest_bars_def)
  have n: "2 = len (dropna latest_bars)"
    by (simp add: dropna_latest_bars len_def)
  have v: "cell (dropna latest_bars) 1 ''RSI'' = Fin 25"
    "cell (dropna latest_bars) 1 ''SMA_20'' = Fin 12"
    "cell (dropna latest_bars) 1 ''SMA_50'' = Fin 11"
    "cell (dropna latest_bars) 0 ''SMA_20'' = Fin 11"
    "cell (dropna latest_bars) 0 ''SMA_50'' = Fin 11"
    by (simp_all add: dropna_latest_bars cell_def bar_def)
  have a: "check_buy_signal (Some latest_bars) =
             Inr (True, Some (Fin 25), Some (Fin 12), Some (Fin 11))"
    using check_buy_signal_latest [OF c refl n] by (auto simp: v fgt_def)
  have c': "''RSI'' \<in> set (columns early_bars)" "''SMA_20'' \<in> set (columns early_bars)"
    "''SMA_50'' \<in> set (columns early_bars)"
    by (simp_all add: early_bars_def)
  have n': "1 = len (dropna early_bars)"
    by (simp add: dropna_early_bars len_def)
  have b: "check_buy_signal (Some early_bars) = Inr (False, None, None, None)"
    using check_buy_signal_latest [OF c' refl n'] by auto
  show ?thesis
    using a b by simp
qed

section \<open>The backtest run\<close>

lemma columns_set_column: "set (columns (set_column df c v)) = insert c (set (columns df))"
  by (auto simp: set_column_def)

lemma columns_add_indicators:
  "set (columns (add_indicators lib df)) =
     {''RSI'', ''SMA_20'', ''SMA_50''} \<union> set (columns df)"
  by (auto simp: add_indicators_def Let_def columns_set_column)

lemma feature_columns_cleaned:
  assumes "''Open'' \<in> set (columns df)"
  shows "feature_columns (dropna (add_indicators lib df))"
  using assms by (simp add: feature_columns_iff columns_add_indicators)

lemma run_backtest_None: "run_backtest lib s None ticker = (Inr None, s)"
  by (simp add: run_backtest_def)

lemma calculate_indicators_copy:
  "calculate_indicators lib (s @ [df]) (Some (length s)) =
     (if ''Close'' \<notin> set (columns df) then (None, s @ [df])
      else (Some (length s), s @ [add_indicators lib df]))"
  by (simp add: calculate_indicators_def)

lemma run_backtest_Some:
  "run_backtest lib s (Some r) ticker =
     (if empty_df (s ! r) then (Inr None, s)
      else if ''Close'' \<notin> set (columns (s ! r)) then (Inl AttributeError, s @ [s ! r])
      else if len (dropna (add_indicators lib (s ! r))) < 7
        then (Inr None, s @ [add_indicators lib (s ! r), dropna (add_indicators lib (s ! r))])
      else (case simulate (dropna (add_indicators lib (s ! r))) ticker of
              Inl e \<Rightarrow> Inl e
            | Inr trades \<Rightarrow> Inr (Some (aggregate lib trades)),
            s @ [add_indicators lib (s ! r), dropna (add_indicators lib (s ! r))]))"
  by (simp add: run_backtest_def copy_def alloc_def dropna_obj_def calculate_indicators_copy
      nth_append split: sum.splits)

text \<open>
  A non-empty frame without a \<open>Close\<close> column is not a price series:
  \<open>calculate_indicators\<close> returns \<open>None\<close> for it and the call of \<open>dropna\<close> raises.
\<close>

lemma run_backtest_without_close:
  assumes "\<not> empty_df (s ! r)" and "''Close'' \<notin> set (columns (s ! r))"
  shows "fst (run_backtest lib s (Some r) ticker) = Inl AttributeError"
  using assms by (simp add: run_backtest_Some)

text \<open>
  C6. \<open>run_backtest\<close> returns \<open>None\<close>, raising nothing, when its argument is \<open>None\<close>,
  when the frame is empty, and when the indicator-cleaned series has fewer than 7 bars.
  For a price frame (one with an \<open>Open\<close> column) it returns a summary exactly when the
  frame is not empty and the cleaned series has at least 7 bars.
\<close>

theorem run_backtest_sentinel:
  "fst (run_backtest lib s None ticker) = Inr None
   \<and> (empty_df (s ! r) \<longrightarrow> fst (run_backtest lib s (Some r) ticker) = Inr None)
   \<and> (\<forall>d. cleaned lib (s ! r) = Some d \<and> len d < 7
          \<longrightarrow> fst (run_backtest lib s (Some r) ticker) = Inr None)
   \<and> (''Open'' \<in> set (columns (s ! r)) \<longrightarrow>
        ((\<exists>summary. fst (run_backtest lib s (Some r) ticker) = Inr (Some summary))
          \<longleftrightarrow> \<not> empty_df (s ! r) \<and> (\<exists>d. cleaned lib (s ! r) = Some d \<and> 7 \<le> len d)))"
proof -
  have a: "fst (run_backtest lib s None ticker) = Inr None"
    by (simp add: run_backtest_None)
  have b: "empty_df (s ! r) \<Longrightarrow> fst (run_backtest lib s (Some r) ticker) = Inr None"
    by (simp add: run_backtest_Some)
  have c: "fst (run_backtest lib s (Some r) ticker) = Inr None"
    if "cleaned lib (s ! r) = Some d" and "len d < 7" for d
    using that by (auto simp: run_backtest_Some cleaned_def split: if_splits)
  have d: "(\<exists>summary. fst (run_backtest lib s (Some r) ticker) = Inr (Some summary))
          \<longleftrightarrow> \<not> empty_df (s ! r) \<and> (\<exists>d. cleaned lib (s ! r) = Some d \<and> 7 \<le> len d)"
    if o: "''Open'' \<in> set (columns (s ! r))"
  proof -
    have "feature_columns (dropna (add_indicators lib (s ! r)))"
      using o by (rule feature_columns_cleaned)
    then obtain trades where
      "simulate (dropna (add_indicators lib (s ! r))) ticker = Inr trades"
      using simulate_value by blast
    then show ?thesis
      by (auto simp: run_backtest_Some cleaned_def)
  qed
  show ?thesis
    using a b c d by blast
qed

lemma cleaned_three_prices:
  "\<exists>d. cleaned toy_library three_prices = Some d \<and> len d = 1"
  by (simp add: cleaned_def add_indicators_def set_column_def column_def dropna_def
      toy_library_def three_prices_def price_bar_def len_def Let_def)

lemma cleaned_twelve_prices:
  "\<exists>d. cleaned toy_library twelve_prices = Some d \<and> len d = 10"
  by (simp add: cleaned_def add_indicators_def set_column_def column_def dropna_def
      toy_library_def twelve_prices_def price_bar_def len_def Let_def)

theorem run_backtest_sentinel_witness:
  "fst (run_backtest toy_library [three_prices] (Some 0) ''X'') = Inr None
   \<and> (\<exists>summary. fst (run_backtest toy_library [twelve_prices] (Some 0) ''X'')
                   = Inr (Some summary))"
proof -
  obtain d where d: "cleaned toy_library ([three_prices] ! 0) = Some d" "len d < 7"
    using cleaned_three_prices by auto
  have a: "fst (run_backtest toy_library [three_prices] (Some 0) ''X'') = Inr None"
    using run_backtest_sentinel [of toy_library "[three_prices]" "''X''" 0] d by blast
  obtain d' where d': "cleaned toy_library ([twelve_prices] ! 0) = Some d'" "7 \<le> len d'"
    using cleaned_twelve_prices by auto
  have o: "''Open'' \<in> set (columns ([twelve_prices] ! 0))"
    and e: "\<not> empty_df ([twelve_prices] ! 0)"
    by (simp_all add: twelve_prices_def empty_df_def)
  have b: "\<exists>summary. fst (run_backtest toy_library [twelve_prices] (Some 0) ''X'')
                   = Inr (Some summary)"
    using run_backtest_sentinel [of toy_library "[twelve_prices]" "''X''" 0] d' o e by blast
  show ?thesis
    using a b by simp
qed

text \<open>
  C10. \<open>run_backtest\<close> leaves the frame it is given, and every other frame of the store,
  as it was: the indicators are written into a copy. \<open>calculate_indicators\<close> itself
  updates the frame it is given in place, which then has the columns \<open>RSI\<close>, \<open>SMA_20\<close>
  and \<open>SMA_50\<close>.
\<close>

theorem run_backtest_frame:
  assumes "r < length s"
  shows "snd (run_backtest lib s (Some r) ticker) ! r = s ! r
       \<and> take (length s) (snd (run_backtest lib s (Some r) ticker)) = s
       \<and> snd (run_backtest lib s None ticker) = s
       \<and> (''Close'' \<in> set (columns (s ! r)) \<longrightarrow>
            calculate_indicators lib s (Some r) = (Some r, s[r := add_indicators lib (s ! r)])
            \<and> snd (calculate_indicators lib s (Some r)) ! r = add_indicators lib (s ! r)
            \<and> set (columns (add_indicators lib (s ! r))) =
                {''RSI'', ''SMA_20'', ''SMA_50''} \<union> set (columns (s ! r)))"
proof -
  have t: "take (length s) (snd (run_backtest lib s (Some r) ticker)) = s"
    by (simp add: run_backtest_Some)
  have "snd (run_backtest lib s (Some r) ticker) ! r
          = take (length s) (snd (run_backtest lib s (Some r) ticker)) ! r"
    using assms by simp
  then have n: "snd (run_backtest lib s (Some r) ticker) ! r = s ! r"
    by (simp only: t)
  have e: "snd (run_backtest lib s None ticker) = s"
    by (simp add: run_backtest_None)
  have c: "calculate_indicators lib s (Some r) = (Some r, s[r := add_indicators lib (s ! r)])"
    "snd (calculate_indicators lib s (Some r)) ! r = add_indicators lib (s ! r)"
    if "''Close'' \<in> set (columns (s ! r))"
    using that assms by (simp_all add: calculate_indicators_def)
  show ?thesis
    using t n e c columns_add_indicators by blast
qed

theorem run_backtest_frame_witness:
  "snd (run_backtest toy_library [twelve_prices] (Some 0) ''X'') ! 0 = twelve_prices
   \<and> ''RSI'' \<notin> set (columns twelve_prices)
   \<and> ''RSI'' \<in> set (columns (snd (calculate_indicators toy_library [twelve_prices] (Some 0)) ! 0))"
proof -
  have r: "0 < length [twelve_prices]"
    by simp
  have c: "''Close'' \<in> set (columns ([twelve_prices] ! 0))"
    and n: "''RSI'' \<notin> set (columns twelve_prices)"
    by (simp_all add: twelve_prices_def)
  show ?thesis
    using run_backtest_frame [OF r, of toy_library "''X''"] c n by simp
qed

end
